theory Spec2Isabelle
  imports Main "HOL-Library.Word" "HOL-Library.Sublist"
begin

section \<open>Exceptions\<close>

text \<open>
  Every \<^verbatim>\<open>throw\<close> of the sources, and every dereference of a null pointer or
  out-of-range vector access they can perform, is a value of this type. The string of
  \<open>runtime_error\<close> and \<open>TracingError_what\<close> is what \<^verbatim>\<open>what()\<close> returns.
\<close>

datatype exn =
    runtime_error string
  | TracingError_what string
  | out_of_range
  | null_pointer
  | collaborator_failure string

text \<open>
  \<^verbatim>\<open>TracingError(std::string what) : std::runtime_error("TracingError: " + what)\<close>
\<close>

definition TracingError :: "string \<Rightarrow> exn" where
  "TracingError what = TracingError_what (''TracingError: '' @ what)"

section \<open>ValueIds, dictionaries and tables (consumed interfaces)\<close>

type_synonym field_t = nat
type_synonym field_name_t = string

text \<open>
  Modelled from the spec: \<^verbatim>\<open>helper/types.h\<close> with the declarations of
  \<^verbatim>\<open>value_id_t\<close> and \<^verbatim>\<open>ValueId\<close> is not among the sources. The spec describes
  a ValueId as an opaque, fixed-width, unsigned integer whose maximum representable value
  is reserved for "value not present in dictionary". The width is left open: the type
  \<^verbatim>\<open>value_id_t\<close> is the parameter \<open>'v\<close> of the records below, and a word
  \<open>'w word\<close> of any width \<open>'w\<close> in the functions. The member \<open>valueId\<close> is the
  one \<^verbatim>\<open>EqualsExpression::walk\<close> assigns.
\<close>

record 'v ValueId =
  valueId :: 'v

text \<open>\<^verbatim>\<open>std::numeric_limits<value_id_t>::max()\<close>\<close>

definition value_id_t_max :: "'w::len word" where
  "value_id_t_max = - 1"

text \<open>
  Modelled from the spec: the dictionary classes are external collaborators, consumed
  through their lookup contract only: \<^verbatim>\<open>findValueIdForValue(value)\<close> returns the
  ValueId of the value, or the sentinel on a miss. A table hands out an untyped dictionary
  per field; \<open>BaseDictionary\<close> is a dictionary of the expression's value type \<open>'a\<close>,
  \<open>OtherDictionary\<close> one of any other value type.
\<close>

datatype ('a, 'v) AbstractDictionary =
    BaseDictionary (findValueIdForValue: "'a \<Rightarrow> 'v")
  | OtherDictionary

text \<open>
  \<^verbatim>\<open>std::dynamic_pointer_cast<storage::BaseDictionary<T>>(...)\<close>: the null pointer
  when the dictionary is not one of value type \<open>T\<close>.
\<close>

definition dynamic_pointer_cast ::
  "('a, 'v) AbstractDictionary \<Rightarrow> ('a \<Rightarrow> 'v) option" where
  "dynamic_pointer_cast d = (case d of BaseDictionary f \<Rightarrow> Some f | OtherDictionary \<Rightarrow> None)"

text \<open>
  Modelled from the spec: the table is an external collaborator; the expression consumes
  the per-field dictionary handle, the per-row ValueId access by (field, row) and the
  resolution of a field name to a field index. Each may raise.
\<close>

record ('a, 'v) AbstractTable =
  dictionaryAt :: "field_t \<Rightarrow> exn + ('a, 'v) AbstractDictionary"
  getValueId :: "field_t \<Rightarrow> nat \<Rightarrow> exn + 'v ValueId"
  numberOfColumn :: "field_name_t \<Rightarrow> exn + field_t"

text \<open>\<^verbatim>\<open>storage::c_atable_ptr_t\<close>: a shared pointer, \<open>None\<close> when null.\<close>

type_synonym ('a, 'v) c_atable_ptr_t = "('a, 'v) AbstractTable option"

text \<open>
  The calls an expression makes on its collaborators, in the order it makes them. Binding
  and evaluation return this log next to their outcome, so that the dictionary lookups and
  the table accesses they perform can be counted.
\<close>

datatype 'a call =
    Call_numberOfColumn field_name_t
  | Call_dictionaryAt field_t
  | Call_findValueIdForValue 'a
  | Call_getValueId field_t nat

fun is_dictionary_lookup :: "'a call \<Rightarrow> bool" where
  "is_dictionary_lookup (Call_findValueIdForValue v) = True"
| "is_dictionary_lookup c = False"

section \<open>The equality expression\<close>

text \<open>
  The members of \<^verbatim>\<open>EqualsExpression<T>\<close> and of its base class
  \<^verbatim>\<open>SimpleFieldExpression\<close>. \<open>table\<close> and \<open>field\<close> are the base members that
  \<^verbatim>\<open>walk\<close>, \<^verbatim>\<open>clone\<close> and \<^verbatim>\<open>operator()\<close> read; \<open>input\<close> and \<open>field_name\<close>
  hold the slot index and the field name of the deferred constructors.
\<close>

record ('a, 'v) EqualsExpression =
  table :: "('a, 'v) c_atable_ptr_t"
  field :: field_t
  field_name :: field_name_t
  input :: nat
  lower_bound :: "'v ValueId"
  valueIdMap :: "('a \<Rightarrow> 'v) option"
  value_exists :: bool
  value' :: 'a

text \<open>
  No constructor of \<^verbatim>\<open>EqualsExpression\<close> initialises \<open>lower_bound\<close> or
  \<open>value_exists\<close>, and the constructor taking a field name leaves \<open>field\<close> alone: their
  contents are indeterminate until \<^verbatim>\<open>walk\<close> assigns them. A constructor of the model
  takes these contents as its first argument.
\<close>

record 'v indeterminate =
  indeterminate_field :: field_t
  indeterminate_lower_bound :: "'v ValueId"
  indeterminate_value_exists :: bool


definition EqualsExpression_input_name ::
  "'v indeterminate \<Rightarrow> nat \<Rightarrow> field_name_t \<Rightarrow> 'a \<Rightarrow> ('a, 'v) EqualsExpression" where
  "EqualsExpression_input_name u i n v =
     \<lparr>table = None, field = indeterminate_field u, field_name = n, input = i,
      lower_bound = indeterminate_lower_bound u, valueIdMap = None,
      value_exists = indeterminate_value_exists u, value' = v\<rparr>"


text \<open>
  Modelled from the spec: \<^verbatim>\<open>SimpleFieldExpression::walk\<close> is not among the sources.
  Given the ordered list of input tables it selects the table of the expression's slot and
  resolves the field reference to a field index against it: a field name by the table's
  \<^verbatim>\<open>numberOfColumn\<close>, a field index as it is. It re-resolves from scratch on every
  call. A slot outside the list is an out-of-range error.
\<close>

definition SimpleFieldExpression_walk ::
  "('a, 'v) c_atable_ptr_t list \<Rightarrow> ('a, 'v) EqualsExpression \<Rightarrow>
   (exn + ('a, 'v) EqualsExpression) \<times> 'a call list" where
  "SimpleFieldExpression_walk l e =
     (if length l \<le> input e then (Inl out_of_range, [])
      else if field_name e = [] then (Inr (e\<lparr>table := l ! input e\<rparr>), [])
      else (case l ! input e of
              None \<Rightarrow> (Inl null_pointer, [])
            | Some t \<Rightarrow>
                (case numberOfColumn t (field_name e) of
                   Inl x \<Rightarrow> (Inl x, [Call_numberOfColumn (field_name e)])
                 | Inr f \<Rightarrow> (Inr (e\<lparr>table := Some t, field := f\<rparr>),
                            [Call_numberOfColumn (field_name e)]))))"

text \<open>
  \<^verbatim>\<open>EqualsExpression::walk\<close>: the base class binds table and field; the field's
  dictionary is fetched and cast to the value type; the literal is looked up once, the
  result is stored in \<open>lower_bound.valueId\<close> and compared with the sentinel. Calling a
  method through a null \<open>table\<close> or a null \<open>valueIdMap\<close> is the error \<open>null_pointer\<close>.
\<close>

definition walk ::
  "('a, 'w::len word) c_atable_ptr_t list \<Rightarrow> ('a, 'w word) EqualsExpression \<Rightarrow>
   (exn + ('a, 'w word) EqualsExpression) \<times> 'a call list" where
  "walk l e =
     (case SimpleFieldExpression_walk l e of
        (Inl x, cs) \<Rightarrow> (Inl x, cs)
      | (Inr e1, cs) \<Rightarrow>
          (case table e1 of
             None \<Rightarrow> (Inl null_pointer, cs)
           | Some t \<Rightarrow>
               (case dictionaryAt t (field e1) of
                  Inl x \<Rightarrow> (Inl x, cs @ [Call_dictionaryAt (field e1)])
                | Inr d \<Rightarrow>
                    (case dynamic_pointer_cast d of
                       None \<Rightarrow> (Inl null_pointer, cs @ [Call_dictionaryAt (field e1)])
                     | Some m \<Rightarrow>
                         let vid = m (value' e1) in
                         (Inr (e1\<lparr>valueIdMap := Some m,
                                  lower_bound := (lower_bound e1)\<lparr>valueId := vid\<rparr>,
                                  value_exists := (vid \<noteq> value_id_t_max)\<rparr>),
                          cs @ [Call_dictionaryAt (field e1),
                                Call_findValueIdForValue (value' e1)])))))"


text \<open>
  \<^verbatim>\<open>EqualsExpression::operator()\<close>:
  \<^verbatim>\<open>value_exists && table->getValueId(field, row) == lower_bound\<close>. The right operand
  of \<^verbatim>\<open>&&\<close> is evaluated only when \<open>value_exists\<close> holds.
\<close>

definition evaluate ::
  "('a, 'v) EqualsExpression \<Rightarrow> nat \<Rightarrow> (exn + bool) \<times> 'a call list" where
  "evaluate e row =
     (if \<not> value_exists e then (Inr False, [])
      else (case table e of
              None \<Rightarrow> (Inl null_pointer, [])
            | Some t \<Rightarrow>
                (case getValueId t (field e) row of
                   Inl x \<Rightarrow> (Inl x, [Call_getValueId (field e) row])
                 | Inr v \<Rightarrow> (Inr (v = lower_bound e), [Call_getValueId (field e) row]))))"

section \<open>The performance tracers\<close>

text \<open>
  \<^verbatim>\<open>typedef long long result_t\<close>: a 64-bit signed integer, here a 64-bit word read
  by \<open>sint\<close>. Arithmetic on it wraps around in two's complement, which is what the
  compiled code does where C++ leaves signed overflow undefined.
\<close>

type_synonym result_t = "64 word"

text \<open>
  \<^verbatim>\<open>std::find(_counters.begin(), _counters.end(), eventName)\<close>, as the distance of the
  returned iterator from \<^verbatim>\<open>begin()\<close>: the first position of the name, and the length
  of the list (the position of \<^verbatim>\<open>end()\<close>) when the name does not occur.
\<close>

fun std_find :: "'a list \<Rightarrow> 'a \<Rightarrow> nat" where
  "std_find [] x = 0"
| "std_find (y # ys) x = (if y = x then 0 else Suc (std_find ys x))"

text \<open>
  Modelled from the spec: \<^verbatim>\<open>helper/stringhelpers.h\<close> with \<^verbatim>\<open>joinString\<close> is not
  among the sources. The failure message of \<^verbatim>\<open>value\<close> is to include the list of the
  registered names: the names in their order, with the delimiter between them.
\<close>

fun joinString :: "string list \<Rightarrow> string \<Rightarrow> string" where
  "joinString [] delim = []"
| "joinString [x] delim = x"
| "joinString (x # y # ys) delim = x @ delim @ joinString (y # ys) delim"

text \<open>The exception both backends throw in \<^verbatim>\<open>value\<close> for a name that is not found.\<close>

definition unregistered_event :: "string list \<Rightarrow> string \<Rightarrow> exn" where
  "unregistered_event cs eventName =
     TracingError (''Trying to access unregistered event '' @ [CHR 0x27] @ eventName
                   @ [CHR 0x27] @ '' '' @ ''Available: '' @ joinString cs '' '')"

subsection \<open>The hardware-counter backend\<close>

text \<open>
  The PAPI library is an external collaborator: \<^verbatim>\<open>papi.h\<close> is not among the sources.
  It is a parameter of the model: the constant \<^verbatim>\<open>PAPI_OK\<close>, and the functions the
  tracer calls, over a state \<open>'p\<close> of the library (its event sets and counters). Each
  function returns its return code first. \<^verbatim>\<open>PAPI_event_name_to_code\<close> also returns the
  event code it writes, \<^verbatim>\<open>PAPI_stop\<close> the counter values it writes.
\<close>

record 'p PAPI =
  PAPI_OK :: int
  PAPI_strerror :: "int \<Rightarrow> string"
  PAPI_event_name_to_code :: "string \<Rightarrow> int \<times> int"
  PAPI_add_event :: "int \<Rightarrow> int \<Rightarrow> 'p \<Rightarrow> int \<times> 'p"
  PAPI_reset :: "int \<Rightarrow> 'p \<Rightarrow> int \<times> 'p"
  PAPI_start :: "int \<Rightarrow> 'p \<Rightarrow> int \<times> 'p"
  PAPI_stop :: "int \<Rightarrow> 'p \<Rightarrow> int \<times> result_t list \<times> 'p"

record PapiTracer =
  eventSet :: int
  disabled :: bool
  running :: bool
  counters :: "string list"
  results :: "result_t list"

text \<open>
  \<^verbatim>\<open>PapiTracer::handle\<close>, applied to the return code of the PAPI function it has
  called: \<open>Some\<close> the exception it throws, \<open>None\<close> when it returns.
\<close>

definition handle :: "'p PAPI \<Rightarrow> string \<Rightarrow> int \<Rightarrow> exn option" where
  "handle L activity retval =
     (if retval \<noteq> PAPI_OK L
      then Some (TracingError (activity @ '' failed: '' @ PAPI_strerror L retval))
      else None)"


text \<open>The loop of \<^verbatim>\<open>PapiTracer::start\<close> over the registered names.\<close>

fun add_events :: "'p PAPI \<Rightarrow> int \<Rightarrow> string list \<Rightarrow> 'p \<Rightarrow> exn + 'p" where
  "add_events L es [] p = Inr p"
| "add_events L es (eventName # rest) p =
     (case PAPI_event_name_to_code L eventName of
        (rv, eventCode) \<Rightarrow>
          (case handle L (''Create event from '' @ eventName) rv of
             Some x \<Rightarrow> Inl x
           | None \<Rightarrow>
               (case PAPI_add_event L es eventCode p of
                  (rv', p') \<Rightarrow>
                    (case handle L ''Adding event to event set'' rv' of
                       Some x \<Rightarrow> Inl x
                     | None \<Rightarrow> add_events L es rest p'))))"

definition PapiTracer_start ::
  "'p PAPI \<Rightarrow> PapiTracer \<Rightarrow> 'p \<Rightarrow> exn + PapiTracer \<times> 'p" where
  "PapiTracer_start L t p =
     (if disabled t then Inr (t, p)
      else if counters t = [] then Inl (runtime_error ''No events set'')
      else (case add_events L (eventSet t) (counters t) p of
              Inl x \<Rightarrow> Inl x
            | Inr p1 \<Rightarrow>
                let t1 = t\<lparr>results := replicate (length (counters t)) 0, running := True\<rparr> in
                (case PAPI_reset L (eventSet t1) p1 of
                   (rv, p2) \<Rightarrow>
                     (case handle L ''Reset counter'' rv of
                        Some x \<Rightarrow> Inl x
                      | None \<Rightarrow>
                          (case PAPI_start L (eventSet t1) p2 of
                             (rv', p3) \<Rightarrow>
                               (case handle L ''Starting counter'' rv' of
                                  Some x \<Rightarrow> Inl x
                                | None \<Rightarrow> Inr (t1, p3)))))))"





subsection \<open>The fallback backend\<close>

text \<open>
  \<^verbatim>\<open>struct timeval\<close>: seconds (\<^verbatim>\<open>time_t\<close>) and microseconds
  (\<^verbatim>\<open>suseconds_t\<close>), both 64-bit signed integers.
\<close>

record timeval =
  tv_sec :: "64 word"
  tv_usec :: "64 word"

record FallbackTracer =
  counters_fb :: "string list"
  result_fb :: result_t
  start_fb :: timeval


text \<open>
  \<^verbatim>\<open>gettimeofday\<close> reads the wall clock: what it stores is the argument \<open>now\<close> of
  \<^verbatim>\<open>start\<close> and \<^verbatim>\<open>stop\<close>. The elapsed microseconds of \<^verbatim>\<open>stop\<close> are
  computed in 64-bit signed arithmetic: differences, product and sum wrap around.
\<close>

definition FallbackTracer_start :: "timeval \<Rightarrow> FallbackTracer \<Rightarrow> exn + FallbackTracer" where
  "FallbackTracer_start now t =
     (if counters_fb t = [] then Inl (TracingError ''No events set'')
      else Inr (t\<lparr>result_fb := 0, start_fb := now\<rparr>))"

definition FallbackTracer_stop :: "timeval \<Rightarrow> FallbackTracer \<Rightarrow> FallbackTracer" where
  "FallbackTracer_stop now t =
     t\<lparr>result_fb := (tv_sec now - tv_sec (start_fb t)) * 1000000
                     + (tv_usec now - tv_usec (start_fb t))\<rparr>"

definition FallbackTracer_reset :: "FallbackTracer \<Rightarrow> FallbackTracer" where
  "FallbackTracer_reset t = t\<lparr>start_fb := \<lparr>tv_sec = 0, tv_usec = 0\<rparr>, result_fb := 0\<rparr>"

definition FallbackTracer_value :: "string \<Rightarrow> FallbackTracer \<Rightarrow> exn + result_t" where
  "FallbackTracer_value eventName t =
     (if std_find (counters_fb t) eventName = length (counters_fb t)
      then Inl (unregistered_event (counters_fb t) eventName)
      else Inr (result_fb t))"

section \<open>The no-op plan operation\<close>

text \<open>
  \<^verbatim>\<open>Json::Value\<close>, the dynamically typed payload of the plan deserializer. A real
  number is kept as the text of its literal.
\<close>

datatype Json_Value =
    nullValue
  | intValue int
  | uintValue nat
  | realValue string
  | stringValue string
  | booleanValue bool
  | arrayValue "Json_Value list"
  | objectValue "(string \<times> Json_Value) list"

text \<open>
  Modelled from the spec: \<^verbatim>\<open>NoOp.h\<close> and the plan-operation base class are not among
  the sources. A plan operation has zero or more inputs and zero or more outputs and
  operation-specific parameters; a no-op has no parameters, and a default instance no
  inputs and no outputs yet. \<open>'t\<close> is the type of what flows between operations.
\<close>

record 't NoOp =
  inputs :: "'t list"
  outputs :: "'t list"

text \<open>\<^verbatim>\<open>std::make_shared<NoOp>()\<close>\<close>

definition make_shared_NoOp :: "'t NoOp" where
  "make_shared_NoOp = \<lparr>inputs = [], outputs = []\<rparr>"

text \<open>\<^verbatim>\<open>NoOp::parse\<close>: the payload is not read.\<close>

definition parse :: "Json_Value \<Rightarrow> exn + 't NoOp" where
  "parse data = Inr make_shared_NoOp"

text \<open>\<^verbatim>\<open>NoOp::executePlanOperation\<close>: the body is empty.\<close>

definition executePlanOperation :: "'t NoOp \<Rightarrow> exn + 't NoOp" where
  "executePlanOperation op = Inr op"

section \<open>Concrete collaborators\<close>

text \<open>
  A dictionary of numbers with 32-bit ValueIds, holding 10 under id 0 and 20 under id 1,
  and a table with the single column \<open>a\<close> of three rows storing the ids 0, 1, 0; a
  second table whose column \<open>a\<close> has two rows storing the ids 1, 1.
\<close>

definition dict0 :: "nat \<Rightarrow> 32 word" where
  "dict0 v = (if v = 10 then 0 else if v = 20 then 1 else value_id_t_max)"

definition table0 :: "(nat, 32 word) AbstractTable" where
  "table0 =
     \<lparr>dictionaryAt = (\<lambda>f. if f = 0 then Inr (BaseDictionary dict0) else Inl out_of_range),
      getValueId = (\<lambda>f row. if f = 0 \<and> row < 3
                              then Inr \<lparr>valueId = [0, 1, 0] ! row\<rparr> else Inl out_of_range),
      numberOfColumn = (\<lambda>n. if n = ''a'' then Inr 0
                             else Inl (collaborator_failure ''no such column''))\<rparr>"

definition table1 :: "(nat, 32 word) AbstractTable" where
  "table1 =
     \<lparr>dictionaryAt = (\<lambda>f. if f = 0 then Inr (BaseDictionary dict0) else Inl out_of_range),
      getValueId = (\<lambda>f row. if f = 0 \<and> row < 2
                              then Inr \<lparr>valueId = 1\<rparr> else Inl out_of_range),
      numberOfColumn = (\<lambda>n. if n = ''a'' then Inr 0
                             else Inl (collaborator_failure ''no such column''))\<rparr>"

definition indeterminate0 :: "32 word indeterminate" where
  "indeterminate0 =
     \<lparr>indeterminate_field = 7, indeterminate_lower_bound = \<lparr>valueId = 0\<rparr>,
      indeterminate_value_exists = False\<rparr>"

text \<open>
  A PAPI library that knows the event \<^verbatim>\<open>PAPI_TOT_INS\<close> only. Its state is the list
  of the event codes attached to the event set; stopping reports 42 for each of them.
\<close>

definition papi0 :: "int list PAPI" where
  "papi0 =
     \<lparr>PAPI_OK = 0,
      PAPI_strerror = (\<lambda>rv. if rv = - 7 then ''Event does not exist'' else ''PAPI Error''),
      PAPI_event_name_to_code = (\<lambda>n. if n = ''PAPI_TOT_INS'' then (0, 50) else (- 7, 0)),
      PAPI_add_event = (\<lambda>es code p. (0, p @ [code])),
      PAPI_reset = (\<lambda>es p. (0, p)),
      PAPI_start = (\<lambda>es p. (0, p)),
      PAPI_stop = (\<lambda>es p. (0, map (\<lambda>c. 42) p, p))\<rparr>"

definition tracer0 :: PapiTracer where
  "tracer0 = \<lparr>eventSet = 1, disabled = False, running = False, counters = [], results = []\<rparr>"

definition fallback0 :: FallbackTracer where
  "fallback0 = \<lparr>counters_fb = [], result_fb = 5, start_fb = \<lparr>tv_sec = 3, tv_usec = 4\<rparr>\<rparr>"



definition fallback1 :: FallbackTracer where
  "fallback1 =
     \<lparr>counters_fb = [''PAPI_TOT_INS''], result_fb = 5,
      start_fb = \<lparr>tv_sec = 3, tv_usec = 4\<rparr>\<rparr>"

text \<open>
  An expression for the literal 20, which the dictionary holds, and one for 30, which it
  does not, both on the column \<open>a\<close> of slot 0; the states \<^verbatim>\<open>walk\<close> leaves them
  in against \<open>table0\<close>; and the state it leaves a clone in against \<open>table1\<close>.
\<close>

definition indeterminate1 :: "32 word indeterminate" where
  "indeterminate1 =
     \<lparr>indeterminate_field = 3, indeterminate_lower_bound = \<lparr>valueId = 0\<rparr>,
      indeterminate_value_exists = True\<rparr>"

definition expr_present0 :: "(nat, 32 word) EqualsExpression" where
  "expr_present0 = EqualsExpression_input_name indeterminate0 0 ''a'' 20"

definition expr_present1 :: "(nat, 32 word) EqualsExpression" where
  "expr_present1 = EqualsExpression_input_name indeterminate1 0 ''a'' 20"

definition expr_absent0 :: "(nat, 32 word) EqualsExpression" where
  "expr_absent0 = EqualsExpression_input_name indeterminate0 0 ''a'' 30"

definition bound_present0 :: "(nat, 32 word) EqualsExpression" where
  "bound_present0 =
     \<lparr>table = Some table0, field = 0, field_name = ''a'', input = 0,
      lower_bound = \<lparr>valueId = 1\<rparr>, valueIdMap = Some dict0, value_exists = True,
      value' = 20\<rparr>"

definition bound_absent0 :: "(nat, 32 word) EqualsExpression" where
  "bound_absent0 =
     \<lparr>table = Some table0, field = 0, field_name = ''a'', input = 0,
      lower_bound = \<lparr>valueId = value_id_t_max\<rparr>, valueIdMap = Some dict0,
      value_exists = False, value' = 30\<rparr>"


text \<open>
  Two expressions have the same configuration when they agree on the slot, the field
  reference (the name, or the index when there is no name) and the literal.
\<close>

definition same_configuration ::
  "('a, 'v) EqualsExpression \<Rightarrow> ('a, 'v) EqualsExpression \<Rightarrow> bool" where
  "same_configuration e e' \<longleftrightarrow>
     input e = input e' \<and> field_name e = field_name e' \<and> value' e = value' e'
     \<and> (field_name e = [] \<longrightarrow> field e = field e')"

section \<open>Auxiliary facts\<close>

lemma SimpleFieldExpression_walk_Inr:
  assumes "SimpleFieldExpression_walk l e = (Inr e1, cs)"
  shows "value' e1 = value' e" and "filter is_dictionary_lookup cs = []"
    and "input e1 = input e" and "field_name e1 = field_name e"
    and "field_name e = [] \<Longrightarrow> field e1 = field e"
  using assms
  by (auto simp: SimpleFieldExpression_walk_def split: if_splits option.splits sum.splits)

lemma walk_Inr:
  assumes "walk l e = (Inr e', cs)"
  obtains e1 cs1 t m where
    "SimpleFieldExpression_walk l e = (Inr e1, cs1)"
    "table e1 = Some t" "dictionaryAt t (field e1) = Inr (BaseDictionary m)"
    "e' = e1\<lparr>valueIdMap := Some m,
             lower_bound := (lower_bound e1)\<lparr>valueId := m (value' e1)\<rparr>,
             value_exists := (m (value' e1) \<noteq> value_id_t_max)\<rparr>"
    "cs = cs1 @ [Call_dictionaryAt (field e1), Call_findValueIdForValue (value' e1)]"
  using assms
  by (auto simp: walk_def dynamic_pointer_cast_def Let_def
           split: prod.splits sum.splits option.splits AbstractDictionary.splits)

lemma walk_bound:
  assumes "walk l e = (Inr e', cs)"
    and "table e' = Some t"
    and "dictionaryAt t (field e') = Inr (BaseDictionary m)"
  shows "lower_bound e' = \<lparr>valueId = m (value' e)\<rparr>"
    and "value_exists e' = (m (value' e) \<noteq> value_id_t_max)"
    and "valueIdMap e' = Some m"
    and "value' e' = value' e"
    and "filter is_dictionary_lookup cs = [Call_findValueIdForValue (value' e)]"
proof -
  from assms(1) obtain e1 cs1 t1 m1 where
    b: "SimpleFieldExpression_walk l e = (Inr e1, cs1)"
    and t: "table e1 = Some t1" and d: "dictionaryAt t1 (field e1) = Inr (BaseDictionary m1)"
    and e': "e' = e1\<lparr>valueIdMap := Some m1,
             lower_bound := (lower_bound e1)\<lparr>valueId := m1 (value' e1)\<rparr>,
             value_exists := (m1 (value' e1) \<noteq> value_id_t_max)\<rparr>"
    and cs: "cs = cs1 @ [Call_dictionaryAt (field e1), Call_findValueIdForValue (value' e1)]"
    by (rule walk_Inr)
  from b have v: "value' e1 = value' e" and f: "filter is_dictionary_lookup cs1 = []"
    by (rule SimpleFieldExpression_walk_Inr)+
  from assms(2) e' t have "t1 = t" by simp
  with assms(3) d e' have m: "m1 = m" by simp
  show "lower_bound e' = \<lparr>valueId = m (value' e)\<rparr>" using e' m v by simp
  show "value_exists e' = (m (value' e) \<noteq> value_id_t_max)" using e' m v by simp
  show "valueIdMap e' = Some m" using e' m by simp
  show "value' e' = value' e" using e' v by simp
  show "filter is_dictionary_lookup cs = [Call_findValueIdForValue (value' e)]"
    using cs v f by simp
qed

lemma walk_same_configuration:
  assumes "same_configuration e e'"
  shows "walk l e = walk l e'"
  using assms
  by (cases e; cases e')
    (simp add: walk_def SimpleFieldExpression_walk_def same_configuration_def Let_def
      split: if_splits option.splits sum.splits prod.splits)

lemma walk_keeps_configuration:
  assumes "walk l e = (Inr e', cs)"
  shows "same_configuration e' e"
proof -
  from assms obtain e1 cs1 t m where
    b: "SimpleFieldExpression_walk l e = (Inr e1, cs1)"
    and e': "e' = e1\<lparr>valueIdMap := Some m,
             lower_bound := (lower_bound e1)\<lparr>valueId := m (value' e1)\<rparr>,
             value_exists := (m (value' e1) \<noteq> value_id_t_max)\<rparr>"
    by (rule walk_Inr)
  from SimpleFieldExpression_walk_Inr [OF b] e' show ?thesis
    by (simp add: same_configuration_def)
qed

lemma same_configuration_trans:
  "same_configuration a b \<Longrightarrow> same_configuration b c \<Longrightarrow> same_configuration a c"
  by (auto simp: same_configuration_def)


lemma walk_absent0:
  "walk [Some table0] expr_absent0
     = (Inr bound_absent0,
        [Call_numberOfColumn ''a'', Call_dictionaryAt 0, Call_findValueIdForValue 30])"
  by (simp add: walk_def SimpleFieldExpression_walk_def expr_absent0_def bound_absent0_def
      EqualsExpression_input_name_def indeterminate0_def table0_def dict0_def
      dynamic_pointer_cast_def value_id_t_max_def)

lemma walk_present0:
  "walk [Some table0] expr_present0
     = (Inr bound_present0,
        [Call_numberOfColumn ''a'', Call_dictionaryAt 0, Call_findValueIdForValue 20])"
  by (simp add: walk_def SimpleFieldExpression_walk_def expr_present0_def bound_present0_def
      EqualsExpression_input_name_def indeterminate0_def table0_def dict0_def
      dynamic_pointer_cast_def value_id_t_max_def)


lemma std_find_end: "std_find xs x = length xs \<longleftrightarrow> x \<notin> set xs"
proof (induction xs)
  case Nil
  show ?case by simp
next
  case (Cons y ys)
  have "std_find ys x \<le> length ys" for ys :: "'a list"
    by (induction ys) simp_all
  with Cons show ?case by auto
qed








section \<open>The equality predicate\<close>

text \<open>
  C1. When binding succeeds and the lookup of the literal in the dictionary of the bound
  column yields the sentinel (the literal is not in that dictionary), binding has performed
  exactly one dictionary lookup, that of the literal, and the bound predicate is false on
  every row index, without any call on the table or the dictionary.
\<close>

theorem equals_absent_literal_false:
  assumes "walk l e = (Inr e', cs)"
    and "table e' = Some t"
    and "dictionaryAt t (field e') = Inr (BaseDictionary m)"
    and "m (value' e) = value_id_t_max"
  shows "filter is_dictionary_lookup cs = [Call_findValueIdForValue (value' e)]
         \<and> evaluate e' row = (Inr False, [])"
proof -
  have "\<not> value_exists e'"
    using walk_bound(2) [OF assms(1-3)] assms(4) by simp
  then have "evaluate e' row = (Inr False, [])"
    by (simp add: evaluate_def)
  with walk_bound(5) [OF assms(1-3)] show ?thesis by simp
qed

theorem equals_absent_literal_false_witness:
  "walk [Some table0] expr_absent0
     = (Inr bound_absent0,
        [Call_numberOfColumn ''a'', Call_dictionaryAt 0, Call_findValueIdForValue 30])
   \<and> dict0 30 = value_id_t_max
   \<and> filter is_dictionary_lookup
        [Call_numberOfColumn ''a'', Call_dictionaryAt 0, Call_findValueIdForValue (30::nat)]
       = [Call_findValueIdForValue 30]
   \<and> evaluate bound_absent0 2 = (Inr False, [])"
proof -
  have t: "table bound_absent0 = Some table0"
    by (simp add: bound_absent0_def)
  have d: "dictionaryAt table0 (field bound_absent0) = Inr (BaseDictionary dict0)"
    by (simp add: bound_absent0_def table0_def)
  have a: "dict0 (value' expr_absent0) = value_id_t_max"
    by (simp add: expr_absent0_def EqualsExpression_input_name_def dict0_def
        value_id_t_max_def)
  from equals_absent_literal_false [OF walk_absent0 t d a, of 2] walk_absent0 a
  show ?thesis by (simp add: expr_absent0_def bound_absent0_def EqualsExpression_input_name_def
      indeterminate0_def table0_def dict0_def value_id_t_max_def)
qed

text \<open>
  C2. When binding succeeds and the lookup of the literal in the dictionary of the bound
  column yields a ValueId other than the sentinel (the literal is in that dictionary), that
  ValueId is the one cached in \<open>lower_bound\<close>, and on every row whose ValueId the table
  returns the bound predicate is true if and only if the row's ValueId for the bound field
  equals the cached one.
\<close>

theorem equals_present_literal_matches_value_id:
  assumes "walk l e = (Inr e', cs)"
    and "table e' = Some t"
    and "dictionaryAt t (field e') = Inr (BaseDictionary m)"
    and "m (value' e) \<noteq> value_id_t_max"
    and "getValueId t (field e') row = Inr vid"
  shows "valueId (lower_bound e') = m (value' e)
         \<and> fst (evaluate e' row) = Inr (vid = lower_bound e')"
proof -
  have "lower_bound e' = \<lparr>valueId = m (value' e)\<rparr>" and "value_exists e'"
    using walk_bound(1,2) [OF assms(1-3)] assms(4) by simp_all
  then show ?thesis using assms(2,5) by (simp add: evaluate_def)
qed

theorem equals_present_literal_matches_value_id_witness:
  "walk [Some table0] expr_present0
     = (Inr bound_present0,
        [Call_numberOfColumn ''a'', Call_dictionaryAt 0, Call_findValueIdForValue 20])
   \<and> dict0 20 \<noteq> value_id_t_max
   \<and> getValueId table0 0 0 = Inr \<lparr>valueId = 0\<rparr>
   \<and> getValueId table0 0 1 = Inr \<lparr>valueId = 1\<rparr>
   \<and> valueId (lower_bound bound_present0) = 1
   \<and> fst (evaluate bound_present0 0) = Inr False
   \<and> fst (evaluate bound_present0 1) = Inr True"
proof -
  have t: "table bound_present0 = Some table0"
    by (simp add: bound_present0_def)
  have d: "dictionaryAt table0 (field bound_present0) = Inr (BaseDictionary dict0)"
    by (simp add: bound_present0_def table0_def)
  have a: "dict0 (value' expr_present0) \<noteq> value_id_t_max"
    by (simp add: expr_present0_def EqualsExpression_input_name_def dict0_def
        value_id_t_max_def)
  have g0: "getValueId table0 (field bound_present0) 0 = Inr \<lparr>valueId = 0\<rparr>"
    by (simp add: bound_present0_def table0_def)
  have g1: "getValueId table0 (field bound_present0) 1 = Inr \<lparr>valueId = 1\<rparr>"
    by (simp add: bound_present0_def table0_def)
  from equals_present_literal_matches_value_id [OF walk_present0 t d a g0]
    equals_present_literal_matches_value_id [OF walk_present0 t d a g1]
    walk_present0 a g0 g1
  show ?thesis by (simp add: expr_present0_def bound_present0_def EqualsExpression_input_name_def
      indeterminate0_def table0_def dict0_def value_id_t_max_def)
qed




text \<open>
  C8. After a successful \<^verbatim>\<open>walk\<close>, a second \<^verbatim>\<open>walk\<close> against any list of
  input tables has the outcome, leaves the state (table, field, dictionary, cached ValueId,
  existence flag) and makes the calls of a single \<^verbatim>\<open>walk\<close> against that list on any
  expression of the same configuration as the original, a freshly constructed one included.
\<close>

theorem rewalk_as_fresh_walk:
  assumes "walk l1 e = (Inr e1, cs1)"
    and "same_configuration e e0"
  shows "walk l2 e1 = walk l2 e0"
proof -
  from assms(1) have "same_configuration e1 e" by (rule walk_keeps_configuration)
  then have "same_configuration e1 e0" using assms(2) by (rule same_configuration_trans)
  then show ?thesis by (rule walk_same_configuration)
qed

theorem rewalk_as_fresh_walk_witness:
  "walk [Some table0] expr_present0
     = (Inr bound_present0,
        [Call_numberOfColumn ''a'', Call_dictionaryAt 0, Call_findValueIdForValue 20])
   \<and> same_configuration expr_present0 expr_present1
   \<and> walk [Some table1] bound_present0 = walk [Some table1] expr_present1
   \<and> fst (walk [Some table1] bound_present0)
       = Inr (bound_present0\<lparr>table := Some table1\<rparr>)"
proof -
  have c: "same_configuration expr_present0 expr_present1"
    by (simp add: same_configuration_def expr_present0_def expr_present1_def
        EqualsExpression_input_name_def)
  have "fst (walk [Some table1] bound_present0) = Inr (bound_present0\<lparr>table := Some table1\<rparr>)"
    by (simp add: walk_def SimpleFieldExpression_walk_def bound_present0_def table1_def
        dict0_def dynamic_pointer_cast_def value_id_t_max_def)
  with rewalk_as_fresh_walk [OF walk_present0 c, of "[Some table1]"] walk_present0 c
  show ?thesis by simp
qed

section \<open>The tracers\<close>










text \<open>
  The elapsed time of the fallback backend wraps around: from the start timestamp
  \<open>{0, 0}\<close> that \<^verbatim>\<open>reset\<close> leaves, a clock of 9223372036854 seconds and 775808
  microseconds gives \<open>- 2 ^ 63\<close>.
\<close>

lemma FallbackTracer_stop_wraps:
  "sint (result_fb (FallbackTracer_stop \<lparr>tv_sec = 9223372036854, tv_usec = 775808\<rparr>
                      (FallbackTracer_reset fallback1)))
     = - 9223372036854775808"
  by (simp add: FallbackTracer_stop_def FallbackTracer_reset_def fallback1_def)

text \<open>
  C7. On an instance that is not disabled (every instance of the fallback backend),
  \<^verbatim>\<open>start\<close> with no registered counter fails with the error "No events set": a
  \<^verbatim>\<open>std::runtime_error\<close> in the hardware-counter backend, a tracing error in the
  fallback backend. No measurement window is begun: no tracer state is returned.
\<close>

theorem start_without_counters_fails:
  "(\<not> disabled t \<and> counters t = [] \<longrightarrow>
      PapiTracer_start L t p = Inl (runtime_error ''No events set''))
   \<and> (counters_fb f = [] \<longrightarrow>
        FallbackTracer_start now f = Inl (TracingError ''No events set''))"
  by (simp add: PapiTracer_start_def FallbackTracer_start_def)

theorem start_without_counters_fails_witness:
  "\<not> disabled tracer0 \<and> counters tracer0 = [] \<and> counters_fb fallback0 = []
   \<and> PapiTracer_start papi0 tracer0 [] = Inl (runtime_error ''No events set'')
   \<and> FallbackTracer_start \<lparr>tv_sec = 9, tv_usec = 8\<rparr> fallback0
       = Inl (TracingError ''No events set'')"
proof -
  have h: "\<not> disabled tracer0" "counters tracer0 = []" "counters_fb fallback0 = []"
    by (simp_all add: tracer0_def fallback0_def)
  from start_without_counters_fails
    [where t = tracer0 and L = papi0 and p = "[]" and f = fallback0
      and now = "\<lparr>tv_sec = 9, tv_usec = 8\<rparr>"] h
  show ?thesis by blast
qed

text \<open>
  C10. In the fallback backend \<^verbatim>\<open>reset\<close> sets the stored result to 0 and the start
  timestamp to \<open>{0, 0}\<close> and changes nothing else: the registered counters stay. After
  it, \<^verbatim>\<open>value\<close> of a registered name returns 0, and \<^verbatim>\<open>start\<close> succeeds without
  any counter being registered again.
\<close>

theorem fallback_reset_keeps_counters:
  "FallbackTracer_reset f = f\<lparr>start_fb := \<lparr>tv_sec = 0, tv_usec = 0\<rparr>, result_fb := 0\<rparr>
   \<and> counters_fb (FallbackTracer_reset f) = counters_fb f
   \<and> (n \<in> set (counters_fb f) \<longrightarrow>
        FallbackTracer_value n (FallbackTracer_reset f) = Inr 0
        \<and> FallbackTracer_start now (FallbackTracer_reset f)
            = Inr (f\<lparr>start_fb := now, result_fb := 0\<rparr>))"
proof -
  have "FallbackTracer_value n (FallbackTracer_reset f) = Inr 0" if "n \<in> set (counters_fb f)"
    using that by (simp add: FallbackTracer_value_def FallbackTracer_reset_def std_find_end)
  moreover have "FallbackTracer_start now (FallbackTracer_reset f)
            = Inr (f\<lparr>start_fb := now, result_fb := 0\<rparr>)" if "n \<in> set (counters_fb f)"
  proof -
    from that have "counters_fb f \<noteq> []" by auto
    then show ?thesis by (simp add: FallbackTracer_start_def FallbackTracer_reset_def)
  qed
  ultimately show ?thesis by (simp add: FallbackTracer_reset_def)
qed

theorem fallback_reset_keeps_counters_witness:
  "''PAPI_TOT_INS'' \<in> set (counters_fb fallback1)
   \<and> counters_fb (FallbackTracer_reset fallback1) = [''PAPI_TOT_INS'']
   \<and> FallbackTracer_value ''PAPI_TOT_INS'' (FallbackTracer_reset fallback1) = Inr 0
   \<and> FallbackTracer_start \<lparr>tv_sec = 9, tv_usec = 8\<rparr> (FallbackTracer_reset fallback1)
       = Inr (fallback1\<lparr>start_fb := \<lparr>tv_sec = 9, tv_usec = 8\<rparr>, result_fb := 0\<rparr>)"
proof -
  have h: "''PAPI_TOT_INS'' \<in> set (counters_fb fallback1)"
    by (simp add: fallback1_def)
  have c: "counters_fb fallback1 = [''PAPI_TOT_INS'']"
    by (simp add: fallback1_def)
  note T = fallback_reset_keeps_counters
    [where f = fallback1 and n = "''PAPI_TOT_INS''" and now = "\<lparr>tv_sec = 9, tv_usec = 8\<rparr>"]
  from T have "counters_fb (FallbackTracer_reset fallback1) = counters_fb fallback1"
    by blast
  then have A: "counters_fb (FallbackTracer_reset fallback1) = [''PAPI_TOT_INS'']"
    by (simp only: c)
  from T h A show ?thesis by blast
qed

section \<open>The no-op plan operation\<close>

text \<open>
  C9. \<^verbatim>\<open>NoOp::parse\<close> returns, for every payload, without error, the default
  instance, which has no inputs and no outputs; two payloads give the same result.
  \<^verbatim>\<open>NoOp::executePlanOperation\<close> returns without error and leaves the operation as
  it was.
\<close>

theorem noop_parse_ignores_payload_execute_does_nothing:
  "(parse data :: exn + 't NoOp) = Inr make_shared_NoOp
   \<and> (parse data :: exn + 't NoOp) = parse data'
   \<and> inputs (make_shared_NoOp :: 't NoOp) = [] \<and> outputs (make_shared_NoOp :: 't NoOp) = []
   \<and> executePlanOperation op = Inr op"
  by (simp add: parse_def executePlanOperation_def make_shared_NoOp_def)

end
